theory Spec2Isabelle
  imports Complex_Main "HOL-Library.Sublist"
begin

section \<open>Python values used by the assistant\<close>

text \<open>
  A Python \<^verbatim>\<open>str\<close> is a sequence of Unicode code points, so a string is a list of
  code-point numbers: \<^verbatim>\<open>len\<close> is \<open>length\<close>, and a non-ASCII letter such as U+00E9 is
  the single number 233. \<open>ustr\<close> reads an ASCII literal; other code points are spelled
  as numbers (233 is e-acute, 244 o-circumflex, 231 c-cedilla, 232 e-grave, 226
  a-circumflex, 224 a-grave, 39 the apostrophe, 10 the newline).
\<close>

type_synonym pystr = "nat list"

definition ustr :: "string \<Rightarrow> pystr" where
  "ustr s = map of_char s"

text \<open>\<^verbatim>\<open>needle in haystack\<close> on strings: the needle occurs as a contiguous run.\<close>

fun starts_with :: "'a list \<Rightarrow> 'a list \<Rightarrow> bool" where
  "starts_with [] hay = True"
| "starts_with (x # xs) [] = False"
| "starts_with (x # xs) (y # ys) = (x = y \<and> starts_with xs ys)"

fun py_in :: "'a list \<Rightarrow> 'a list \<Rightarrow> bool" where
  "py_in needle [] = (needle = [])"
| "py_in needle (y # ys) = (starts_with needle (y # ys) \<or> py_in needle ys)"

text \<open>
  \<^verbatim>\<open>str.lower\<close> belongs to the Python runtime (it applies the Unicode case tables, which
  are not part of the repository), so the functions below take it as the parameter
  \<open>lower\<close>. \<open>lower_latin1\<close> is what \<^verbatim>\<open>str.lower\<close> computes on text whose code points
  all lie below U+0100: A-Z and the capitals U+00C0-U+00DE other than the
  multiplication sign U+00D7 move up by 32, everything else stays. It serves as the
  concrete instance in the examples.
\<close>

definition is_ascii_upper :: "nat \<Rightarrow> bool" where
  "is_ascii_upper c = (65 \<le> c \<and> c \<le> 90)"

definition lower_cp :: "nat \<Rightarrow> nat" where
  "lower_cp c =
     (if is_ascii_upper c then c + 32
      else if 192 \<le> c \<and> c \<le> 222 \<and> c \<noteq> 215 then c + 32
      else c)"

definition lower_latin1 :: "pystr \<Rightarrow> pystr" where
  "lower_latin1 s = map lower_cp s"

text \<open>
  What \<open>lower\<close> is assumed to guarantee where a claim depends on it: no letter A-Z
  survives lowercasing.
\<close>

definition no_ascii_upper :: "pystr \<Rightarrow> bool" where
  "no_ascii_upper s = list_all (\<lambda>c. \<not> is_ascii_upper c) s"

definition has_ascii_upper :: "pystr \<Rightarrow> bool" where
  "has_ascii_upper s = list_ex is_ascii_upper s"

text \<open>An instance of \<^verbatim>\<open>Exception\<close>, with its message.\<close>

datatype py_exception = PyException pystr

section \<open>The search service (\<^verbatim>\<open>self.es\<close>)\<close>

text \<open>
  The body of the one request \<^verbatim>\<open>_get_contextual_results\<close> sends, and a hit of the reply:
  its \<^verbatim>\<open>_score\<close> and its \<^verbatim>\<open>_source\<close> document, a dictionary from field names to texts.
  The score is a JSON number that the code only passes on, so it is a real here.
  The client is a function from the request to the list under \<^verbatim>\<open>res['hits']['hits']\<close>
  (\<^verbatim>\<open>.get\<close> makes a missing key the empty list), or to the exception the call raises.
  \<^verbatim>\<open>self.es\<close> is \<^verbatim>\<open>None\<close> when \<^verbatim>\<open>_init_elasticsearch\<close> failed.
\<close>

record es_request =
  rq_index :: pystr
  rq_query :: pystr
  rq_fields :: "pystr list"
  rq_type :: pystr
  rq_size :: nat

record hit =
  h_score :: real
  h_source :: "pystr \<rightharpoonup> pystr"

type_synonym es_client = "es_request \<Rightarrow> py_exception + hit list"

text \<open>
  What a call leaves behind besides its result, in order: the retrieval entered with a
  query, a request sent to the search service, the agent called with an input, the
  cache cleared.
\<close>

datatype event =
    Retrieval pystr
  | Search es_request
  | AgentCall pystr
  | CacheCleared

text \<open>
  The assistant object. \<open>agent_state\<close> is whatever the LangChain agent keeps between
  turns (its conversation memory); the agent itself is a parameter of the functions
  that call it.
\<close>

record 'm assistant =
  es :: "es_client option"
  agent_state :: 'm
  response_cache :: "pystr \<rightharpoonup> pystr"
  last_query :: "pystr option"

definition search_body :: "pystr \<Rightarrow> es_request" where
  "search_body query =
     \<lparr>rq_index = ustr ''assistant_fiscal_v2'',
      rq_query = query,
      rq_fields = [ustr ''question'' @ [94] @ ustr ''3'', ustr ''reponse'' @ [94] @ ustr ''2'',
                   ustr ''tags''],
      rq_type = ustr ''best_fields'',
      rq_size = 3\<rparr>"

text \<open>
  \<^verbatim>\<open>self.es.search(...)\<close>: on a \<^verbatim>\<open>None\<close> client the attribute access raises
  \<^verbatim>\<open>AttributeError\<close> before any request leaves.
\<close>

definition es_search :: "'m assistant \<Rightarrow> es_request \<Rightarrow> py_exception + hit list" where
  "es_search self req =
     (case es self of
        None \<Rightarrow> Inl (PyException (ustr ''AttributeError''))
      | Some client \<Rightarrow> client req)"

section \<open>\<^verbatim>\<open>_get_contextual_results\<close>\<close>

text \<open>
  The whole body stands in \<^verbatim>\<open>try ... except Exception\<close>, so every failure inside ends in
  \<^verbatim>\<open>return [], 0\<close>: the search raising, a hit whose document has no \<^verbatim>\<open>reponse\<close>
  (\<^verbatim>\<open>KeyError\<close> in the list comprehension), or one of the first three hits having no
  \<^verbatim>\<open>question\<close> (\<^verbatim>\<open>KeyError\<close> in the loop that prints them). What is printed is not part
  of the result and is left out. The second component of the result is the trace:
  that the function was entered, and the request it sent, if any. (The name drops the
  leading underscore of the source.)
\<close>

definition get_contextual_results ::
    "'m assistant \<Rightarrow> pystr \<Rightarrow> (pystr list \<times> real) \<times> event list" where
  "get_contextual_results self query =
     ((case es_search self (search_body query) of
         Inl e \<Rightarrow> ([], 0)
       | Inr hits \<Rightarrow>
           (case hits of
              [] \<Rightarrow> ([], 0)
            | first # rest \<Rightarrow>
                (let best_score = h_score first in
                 case those (map (\<lambda>hit. h_source hit (ustr ''reponse'')) hits) of
                   None \<Rightarrow> ([], 0)
                 | Some responses \<Rightarrow>
                     (case those (map (\<lambda>hit. h_source hit (ustr ''question''))
                                   (take 3 hits)) of
                        None \<Rightarrow> ([], 0)
                      | Some questions \<Rightarrow> (responses, best_score))))),
      Retrieval query #
        (case es self of None \<Rightarrow> [] | Some client \<Rightarrow> [Search (search_body query)]))"

section \<open>\<^verbatim>\<open>recherche_fiscale\<close>\<close>

definition gerer_salutation :: pystr where
  "gerer_salutation =
     [128188] @ ustr '' Bonjour ! Assistant fiscal s'' @ [233] @ ustr ''n'' @ [233] @
       ustr ''galais '' @ [224] @
       ustr '' votre service. Posez-moi vos questions sur les imp'' @ [244] @
       ustr ''ts et taxes.''"

definition mots_cles_fiscaux :: "pystr list" where
  "mots_cles_fiscaux =
    [ustr ''imp'' @ [244] @ ustr ''t'', ustr ''impot'', ustr ''taxe'', ustr ''TVA'',
       ustr ''CFPNB'', ustr ''cfpnb'', ustr ''pv'', ustr ''PV'', ustr ''PME'', ustr ''quitus'',
       ustr ''PCF'', ustr ''fiscalit'' @ [233], ustr ''d'' @ [233] @ ustr ''claration'',
       ustr ''CGU'', ustr ''Patente'', ustr ''r'' @ [233] @ ustr ''capitulatifs'',
     ustr ''exon'' @ [233] @ ustr ''ration'', ustr ''remboursement'',
       ustr ''trop per'' @ [231] @ ustr ''u'', ustr ''d'' @ [233] @ ustr ''lai'',
       ustr ''quitus fiscal '', ustr ''d'' @ [233] @ ustr ''lai de paiement'',
       ustr ''quittance'', ustr ''r'' @ [233] @ ustr ''c'' @ [233] @ ustr ''piss'' @ [233],
       ustr ''revenus'', ustr ''formalisation'',
     ustr ''contribution'', ustr ''taxation'', ustr ''droit d'' @ [39] @ ustr ''enregistrement'',
       ustr ''droits d'' @ [39] @ ustr ''enregistrement'',
       ustr ''taxes d'' @ [39] @ ustr ''enregistrement'', ustr ''entreprise'',
       ustr ''changement de statuts'',
     ustr ''taxes sur les salaires'', ustr ''taxe sur les salaires'',
       ustr ''taxe fonci'' @ [232] @ ustr ''re'', ustr ''taxe professionnelle'', ustr ''NINEA'',
       ustr ''direct'', ustr ''indirect'',
       ustr ''r'' @ [233] @ ustr ''ouverturetaxe sur la valeur ajout'' @ [233] @ ustr ''e'',
     ustr ''tva'', ustr ''passeport'', ustr ''taxe sur les boissons'',
       ustr ''r'' @ [233] @ ustr ''ductions'', ustr ''immatriculation'',
       ustr ''propri'' @ [233] @ ustr ''taire'', ustr ''compte'', ustr ''duplicata'',
     ustr ''IR'', ustr ''IS'', ustr ''patente'', ustr ''douane'',
       ustr ''r'' @ [233] @ ustr ''gime fiscal'',
       ustr ''code g'' @ [233] @ ustr ''n'' @ [233] @ ustr ''ral des imp'' @ [244] @ ustr ''ts'',
       ustr ''proc'' @ [233] @ ustr ''dure'', ustr ''acte administratif'',
       ustr ''exon'' @ [233] @ ustr ''rations'',
     ustr ''obligation fiscale'', ustr ''penalit'' @ [233], ustr ''amende'',
       ustr ''contr'' @ [244] @ ustr ''le fiscal'',
       ustr ''d'' @ [233] @ ustr ''marrage des activit'' @ [233] @ ustr ''s'',
       ustr ''homologation'', ustr ''actetitre'',
     ustr ''SIGTAS'', ustr ''imposition'', ustr ''bail'',
       ustr ''foncier b'' @ [226] @ ustr ''ti '', ustr ''foncier non b'' @ [226] @ ustr ''ti'',
       ustr ''TEOM'', ustr ''vv'' @ [233] @ ustr ''rification'']"

definition salutations :: "pystr list" where
  "salutations =
     [ustr ''bonjour'', ustr ''salut'', ustr ''hello'', ustr ''bonsoir'', ustr ''coucou'',
      ustr ''hi'', ustr ''salam'']"

definition msg_hors_domaine :: pystr where
  "msg_hors_domaine =
     [9888, 65039] @ ustr '' Je suis un assistant sp'' @ [233] @ ustr ''cialis'' @ [233] @
       ustr '' exclusivement en fiscalit'' @ [233] @ ustr '' s'' @ [233] @ ustr ''n'' @
       [233] @ ustr ''galaise.'' @ [10]"

definition msg_introuvable :: pystr where
  "msg_introuvable =
     [128269] @ ustr '' Je n'' @ [39] @ ustr ''ai pas trouv'' @ [233] @ ustr '' d'' @ [39] @
       ustr ''information pr'' @ [233] @
       ustr ''cise dans ma base fiscale. Consultez le site officiel : www.impotsetdomaines.gouv.sn'' @
       [10]"

text \<open>\<^verbatim>\<open>any(salut in query_lower for salut in salutations)\<close> and the keyword test.\<close>

definition contient_salutation :: "pystr \<Rightarrow> bool" where
  "contient_salutation query_lower = list_ex (\<lambda>salut. py_in salut query_lower) salutations"

definition contient_mot_cle :: "pystr \<Rightarrow> bool" where
  "contient_mot_cle query_lower = list_ex (\<lambda>mot. py_in mot query_lower) mots_cles_fiscaux"

text \<open>
  The reply and the trace of the retrieval. The two tests read the lowercased query;
  the search receives the query as typed.
\<close>

definition recherche_fiscale ::
    "(pystr \<Rightarrow> pystr) \<Rightarrow> 'm assistant \<Rightarrow> pystr \<Rightarrow> pystr \<times> event list" where
  "recherche_fiscale lower self query =
     (let query_lower = lower query in
      if contient_salutation query_lower then (gerer_salutation, [])
      else if \<not> contient_mot_cle query_lower then (msg_hors_domaine, [])
      else (case get_contextual_results self query of
              ((responses, score), trace) \<Rightarrow>
                (case responses of
                   [] \<Rightarrow> (msg_introuvable, trace)
                 | r0 # others \<Rightarrow> (r0, trace))))"

section \<open>The agent and \<^verbatim>\<open>vider_cache\<close>\<close>

text \<open>
  \<^verbatim>\<open>_init_agent\<close> hands \<^verbatim>\<open>recherche_fiscale\<close> to LangChain as the agent's only tool and
  fixes two settings of the executor. The executor and the language model behind it
  are outside the repository: the agent is a parameter, a function of the tool it was
  given, its own state and the input, that returns the output text or raises. The
  loop that applies the two settings is LangChain's and is not modelled.
\<close>

datatype raised = Exc py_exception | KeyboardInterrupt

type_synonym 'm agent = "(pystr \<Rightarrow> pystr) \<Rightarrow> 'm \<Rightarrow> pystr \<Rightarrow> (raised + pystr) \<times> 'm"

record agent_settings =
  max_iterations :: nat
  early_stopping_method :: pystr

definition init_agent_settings :: agent_settings where
  "init_agent_settings = \<lparr>max_iterations = 4, early_stopping_method = ustr ''generate''\<rparr>"

definition fiscal_tool :: "(pystr \<Rightarrow> pystr) \<Rightarrow> 'm assistant \<Rightarrow> pystr \<Rightarrow> pystr" where
  "fiscal_tool lower self query = fst (recherche_fiscale lower self query)"

text \<open>\<^verbatim>\<open>__init__\<close>: the cache starts as the empty dictionary.\<close>

definition init_assistant :: "es_client option \<Rightarrow> 'm \<Rightarrow> 'm assistant" where
  "init_assistant client m0 =
     \<lparr>es = client, agent_state = m0, response_cache = Map.empty, last_query = None\<rparr>"

definition vider_cache :: "'m assistant \<Rightarrow> 'm assistant" where
  "vider_cache self = self\<lparr>response_cache := Map.empty\<rparr>"

section \<open>\<^verbatim>\<open>run\<close>: the console loop\<close>

text \<open>
  Whitespace as \<^verbatim>\<open>str.strip()\<close> sees it, and \<^verbatim>\<open>strip\<close> itself.
\<close>

definition py_isspace :: "nat \<Rightarrow> bool" where
  "py_isspace c =
     ((9 \<le> c \<and> c \<le> 13) \<or> (28 \<le> c \<and> c \<le> 32) \<or> c = 133 \<or> c = 160 \<or> c = 5760 \<or>
      (8192 \<le> c \<and> c \<le> 8202) \<or> c = 8232 \<or> c = 8233 \<or> c = 8239 \<or> c = 8287 \<or>
      c = 12288)"

definition py_strip :: "pystr \<Rightarrow> pystr" where
  "py_strip s = rev (dropWhile py_isspace (rev (dropWhile py_isspace s)))"

text \<open>
  One pass through the body of \<^verbatim>\<open>while True\<close>. \<^verbatim>\<open>input()\<close> returns a line, or raises
  \<^verbatim>\<open>KeyboardInterrupt\<close>, or raises \<^verbatim>\<open>EOFError\<close> at the end of the input. The result says
  whether the loop goes on, what happened (the agent called, the cache cleared) and
  the assistant afterwards. Printing is left out.
\<close>

datatype console = Line pystr | CtrlC | EndOfInput

datatype loop_status = Running | Stopped

definition run_turn ::
    "(pystr \<Rightarrow> pystr) \<Rightarrow> 'm agent \<Rightarrow> 'm assistant \<Rightarrow> console \<Rightarrow>
      loop_status \<times> event list \<times> 'm assistant" where
  "run_turn lower agent self inp =
     (case inp of
        CtrlC \<Rightarrow> (Stopped, [], self)
      | EndOfInput \<Rightarrow> (Running, [CacheCleared], vider_cache self)
      | Line raw \<Rightarrow>
          (let user_input = py_strip raw in
           if List.member [ustr ''exit'', ustr ''quit'', ustr ''q''] (lower user_input)
           then (Stopped, [], self)
           else if List.member [ustr ''vider cache'', ustr ''reset''] (lower user_input)
           then (Running, [CacheCleared], vider_cache self)
           else if contient_salutation (lower user_input) then (Running, [], self)
           else
             (case agent (fiscal_tool lower self) (agent_state self) user_input of
                (Inr output, m) \<Rightarrow>
                  (Running, [AgentCall user_input], self\<lparr>agent_state := m\<rparr>)
              | (Inl KeyboardInterrupt, m) \<Rightarrow>
                  (Stopped, [AgentCall user_input], self\<lparr>agent_state := m\<rparr>)
              | (Inl (Exc e), m) \<Rightarrow>
                  (Running, [AgentCall user_input, CacheCleared],
                   vider_cache (self\<lparr>agent_state := m\<rparr>)))))"

text \<open>The loop over the inputs the console delivers, until a stop or until they run out.\<close>

fun run_loop ::
    "(pystr \<Rightarrow> pystr) \<Rightarrow> 'm agent \<Rightarrow> 'm assistant \<Rightarrow> console list \<Rightarrow>
      loop_status \<times> event list \<times> 'm assistant" where
  "run_loop lower agent self [] = (Running, [], self)"
| "run_loop lower agent self (inp # rest) =
     (case run_turn lower agent self inp of
        (Stopped, events, self') \<Rightarrow> (Stopped, events, self')
      | (Running, events, self') \<Rightarrow>
          (case run_loop lower agent self' rest of
             (status, events', self'') \<Rightarrow> (status, events @ events', self'')))"

section \<open>\<^verbatim>\<open>get_fiscalite\<close>: the HTTP endpoint\<close>

text \<open>
  \<open>x_api_key\<close> is \<open>None\<close> when the request has no \<^verbatim>\<open>x-api-key\<close> header. The result is
  the raised \<^verbatim>\<open>HTTPException\<close>, the JSON object \<^verbatim>\<open>{"message": ...}\<close>, or whatever the
  agent raised, which the endpoint does not catch.
\<close>

datatype api_result =
    HTTPException nat pystr
  | Message pystr
  | Propagated raised

definition API_KEY :: pystr where
  "API_KEY = ustr ''ma-cle-secrete''"

definition detail_403 :: pystr where
  "detail_403 =
     ustr ''Acc'' @ [232] @ ustr ''s non autoris'' @ [233] @ ustr ''. Cl'' @ [233] @
       ustr '' invalide.''"

definition msg_question_imprecise :: pystr where
  "msg_question_imprecise =
     [10060] @ ustr '' Veuillez poser une question fiscale plus pr'' @ [233] @ ustr ''cise.''"

text \<open>\<^verbatim>\<open>if x_api_key and x_api_key != API_KEY\<close>: \<^verbatim>\<open>None\<close> and the empty string are falsy.\<close>

definition cle_refusee :: "pystr option \<Rightarrow> bool" where
  "cle_refusee x_api_key =
     (case x_api_key of None \<Rightarrow> False | Some k \<Rightarrow> k \<noteq> [] \<and> k \<noteq> API_KEY)"

definition get_fiscalite ::
    "(pystr \<Rightarrow> pystr) \<Rightarrow> 'm agent \<Rightarrow> 'm assistant \<Rightarrow> pystr \<Rightarrow> pystr option \<Rightarrow>
      api_result \<times> event list \<times> 'm assistant" where
  "get_fiscalite lower agent assistant question x_api_key =
     (if cle_refusee x_api_key then (HTTPException 403 detail_403, [], assistant)
      else if py_strip question = [] \<or> length question < 3
      then (Message msg_question_imprecise, [], assistant)
      else
        (case agent (fiscal_tool lower assistant) (agent_state assistant) question of
           (Inr response, m) \<Rightarrow>
             (Message response, [AgentCall question], assistant\<lparr>agent_state := m\<rparr>)
         | (Inl r, m) \<Rightarrow>
             (Propagated r, [AgentCall question], assistant\<lparr>agent_state := m\<rparr>)))"

section \<open>Example data\<close>

text \<open>
  A four-document corpus behind a client that honours the size bound, a client whose
  search always fails, one that never finds anything, an agent that asks its tool once
  and repeats the observation, counting its turns, and two questions.
\<close>

definition doc :: "pystr \<Rightarrow> pystr \<Rightarrow> (pystr \<rightharpoonup> pystr)" where
  "doc q r = [ustr ''question'' \<mapsto> q, ustr ''reponse'' \<mapsto> r]"

definition corpus_hits :: "hit list" where
  "corpus_hits =
     [\<lparr>h_score = 12, h_source = doc (ustr ''delai declaration TVA'') (ustr ''30 jours'')\<rparr>,
      \<lparr>h_score = 7, h_source = doc (ustr ''taux TVA'') (ustr ''18 pour cent'')\<rparr>,
      \<lparr>h_score = 3, h_source = doc (ustr ''TVA hotellerie'') (ustr ''10 pour cent'')\<rparr>,
      \<lparr>h_score = 1, h_source = doc (ustr ''remboursement TVA'') (ustr ''sur demande'')\<rparr>]"

definition es_corpus :: es_client where
  "es_corpus req = Inr (take (rq_size req) corpus_hits)"

definition es_down :: es_client where
  "es_down req = Inl (PyException (ustr ''ConnectionError''))"

definition es_no_match :: es_client where
  "es_no_match req = Inr []"

text \<open>
  A service that ignores the size it was asked for and replies worst first, and one
  whose only hit is a document without a \<^verbatim>\<open>question\<close>.
\<close>

definition es_unruly :: es_client where
  "es_unruly req = Inr (rev corpus_hits)"

definition es_incomplete :: es_client where
  "es_incomplete req =
     Inr [\<lparr>h_score = 5, h_source = [ustr ''reponse'' \<mapsto> ustr ''30 jours'']\<rparr>]"

definition agent_once :: "nat agent" where
  "agent_once tool m question = (Inr (tool question), Suc m)"

definition q_tva :: pystr where
  "q_tva = ustr ''Quels sont les d'' @ [233] @ ustr ''lais pour la d'' @ [233] @
     ustr ''claration de TVA ?''"

definition q_is :: pystr where
  "q_is = ustr ''Quel est le taux de l'' @ [39] @ ustr ''IS ?''"

section \<open>Predicates used to state the properties\<close>

text \<open>
  A reply the retrieval can read to the end: every hit's document has a \<^verbatim>\<open>reponse\<close>, and
  the documents of the first three hits have a \<^verbatim>\<open>question\<close>.
\<close>

definition reply_readable :: "hit list \<Rightarrow> bool" where
  "reply_readable hits =
     (list_all (\<lambda>hit. h_source hit (ustr ''reponse'') \<noteq> None) hits
      \<and> list_all (\<lambda>hit. h_source hit (ustr ''question'') \<noteq> None) (take 3 hits))"

text \<open>The keywords of the list that are written in capitals only.\<close>

definition acronymes :: "pystr list" where
  "acronymes =
     [ustr ''IR'', ustr ''IS'', ustr ''NINEA'', ustr ''CGU'', ustr ''PME'', ustr ''PCF'',
      ustr ''SIGTAS'']"

text \<open>
  The turns of the console loop on which the cache is cleared: the end of the input
  (\<^verbatim>\<open>EOFError\<close>, caught by \<^verbatim>\<open>except Exception\<close>), the commands \<^verbatim>\<open>vider cache\<close> and
  \<^verbatim>\<open>reset\<close>, and a question on which the agent raises an \<^verbatim>\<open>Exception\<close>.
\<close>

definition turn_clears ::
    "(pystr \<Rightarrow> pystr) \<Rightarrow> 'm agent \<Rightarrow> 'm assistant \<Rightarrow> console \<Rightarrow> bool" where
  "turn_clears lower agent self inp =
     (case inp of
        CtrlC \<Rightarrow> False
      | EndOfInput \<Rightarrow> True
      | Line raw \<Rightarrow>
          \<not> List.member [ustr ''exit'', ustr ''quit'', ustr ''q''] (lower (py_strip raw))
          \<and> (List.member [ustr ''vider cache'', ustr ''reset''] (lower (py_strip raw))
               \<or> (\<not> contient_salutation (lower (py_strip raw))
                    \<and> (case fst (agent (fiscal_tool lower self) (agent_state self)
                                   (py_strip raw)) of
                          Inl (Exc e) \<Rightarrow> True
                        | Inl KeyboardInterrupt \<Rightarrow> False
                        | Inr output \<Rightarrow> False))))"

section \<open>Basic facts\<close>

lemma starts_with_prefix: "starts_with xs ys \<longleftrightarrow> prefix xs ys"
  by (induction xs ys rule: starts_with.induct) simp_all

lemma py_in_sublist: "py_in xs ys \<longleftrightarrow> sublist xs ys"
  by (induction ys) (simp_all add: starts_with_prefix sublist_Cons_right)

text \<open>The two tests of \<^verbatim>\<open>recherche_fiscale\<close>, said with the library's \<open>sublist\<close>.\<close>

lemma contient_salutation_iff:
  "contient_salutation s \<longleftrightarrow> (\<exists>salut \<in> set salutations. sublist salut s)"
  by (simp add: contient_salutation_def list_ex_iff py_in_sublist)

lemma contient_mot_cle_iff:
  "contient_mot_cle s \<longleftrightarrow> (\<exists>mot \<in> set mots_cles_fiscaux. sublist mot s)"
  by (simp add: contient_mot_cle_def list_ex_iff py_in_sublist)

lemmas eval_defs = contient_salutation_def contient_mot_cle_def salutations_def
  mots_cles_fiscaux_def ustr_def lower_latin1_def lower_cp_def is_ascii_upper_def

lemmas fixture_defs = init_assistant_def es_corpus_def es_down_def es_no_match_def
  corpus_hits_def doc_def q_tva_def get_contextual_results_def es_search_def search_body_def

section \<open>Facts about the retrieval\<close>

lemma those_map_Some: "those xs = Some ys \<Longrightarrow> xs = map Some ys"
  by (induction xs arbitrary: ys) (auto split: option.splits)

lemma get_contextual_results_trace:
  "snd (get_contextual_results self query) =
     Retrieval query #
       (case es self of None \<Rightarrow> [] | Some client \<Rightarrow> [Search (search_body query)])"
  by (simp add: get_contextual_results_def)

text \<open>A non-empty result comes from a non-empty reply of the search, hit by hit.\<close>

lemma get_contextual_results_nonempty:
  assumes "fst (get_contextual_results self query) = (responses, best)"
    and "responses \<noteq> []"
  shows "\<exists>first rest. es_search self (search_body query) = Inr (first # rest)
           \<and> map (\<lambda>hit. h_source hit (ustr ''reponse'')) (first # rest) = map Some responses
           \<and> best = h_score first"
  using assms
  by (auto simp: get_contextual_results_def Let_def dest: those_map_Some
      split: sum.splits list.splits option.splits)

lemma get_contextual_results_empty:
  assumes "fst (get_contextual_results self query) = (responses, best)"
    and "responses = []"
  shows "best = 0"
  using assms
  by (auto simp: get_contextual_results_def Let_def
      split: sum.splits list.splits option.splits)

lemma get_contextual_results_failure:
  "es_search self (search_body query) = Inl e \<Longrightarrow>
     fst (get_contextual_results self query) = ([], 0)"
  by (simp add: get_contextual_results_def)

lemma get_contextual_results_no_hits:
  "es_search self (search_body query) = Inr [] \<Longrightarrow>
     fst (get_contextual_results self query) = ([], 0)"
  by (simp add: get_contextual_results_def)

lemma those_all_Some:
  "list_all (\<lambda>x. f x \<noteq> None) xs \<Longrightarrow> those (map f xs) = Some (map (\<lambda>x. the (f x)) xs)"
  by (induction xs) auto

lemma those_None_iff: "those xs = None \<longleftrightarrow> None \<in> set xs"
  by (induction xs) (auto split: option.splits)

text \<open>A reply that cannot be read to the end is dropped whole.\<close>

lemma get_contextual_results_unreadable:
  assumes "es_search self (search_body query) = Inr (first # rest)"
    and "\<not> reply_readable (first # rest)"
  shows "fst (get_contextual_results self query) = ([], 0)"
proof -
  from assms(2) have
    "those (map (\<lambda>hit. h_source hit (ustr ''reponse'')) (first # rest)) = None
     \<or> those (map (\<lambda>hit. h_source hit (ustr ''question'')) (take 3 (first # rest))) = None"
    unfolding reply_readable_def those_None_iff list_all_iff by force
  with assms(1) show ?thesis
    by (auto simp: get_contextual_results_def Let_def split: option.splits)
qed

text \<open>On a readable reply no lookup fails, and the result is read off the hits.\<close>

lemma get_contextual_results_readable:
  assumes "es_search self (search_body query) = Inr (first # rest)"
    and "reply_readable (first # rest)"
  shows "fst (get_contextual_results self query) =
           (map (\<lambda>hit. the (h_source hit (ustr ''reponse''))) (first # rest), h_score first)"
proof -
  from assms(2) have
    r: "list_all (\<lambda>hit. h_source hit (ustr ''reponse'') \<noteq> None) (first # rest)" and
    q: "list_all (\<lambda>hit. h_source hit (ustr ''question'') \<noteq> None) (take 3 (first # rest))"
    by (simp_all add: reply_readable_def)
  show ?thesis
    using assms(1) those_all_Some [OF r] those_all_Some [OF q]
    by (simp add: get_contextual_results_def Let_def)
qed

lemma get_contextual_results_ignores_cache:
  "get_contextual_results (self\<lparr>response_cache := c\<rparr>) query =
     get_contextual_results self query"
  by (simp add: get_contextual_results_def es_search_def)

lemma recherche_fiscale_ignores_cache:
  "recherche_fiscale lower (self\<lparr>response_cache := c\<rparr>) query =
     recherche_fiscale lower self query"
  by (simp add: recherche_fiscale_def Let_def get_contextual_results_ignores_cache)

lemma recherche_fiscale_in_domain:
  assumes "\<not> contient_salutation (lower query)" and "contient_mot_cle (lower query)"
  shows "fst (recherche_fiscale lower self query) =
           (case fst (fst (get_contextual_results self query)) of
              [] \<Rightarrow> msg_introuvable | r0 # others \<Rightarrow> r0)"
  using assms by (simp add: recherche_fiscale_def split: prod.splits list.splits)

lemma q_tva_in_domain:
  "\<not> contient_salutation (lower_latin1 q_tva)" "contient_mot_cle (lower_latin1 q_tva)"
  by (simp_all add: eval_defs q_tva_def)

lemma corpus_retrieval:
  "fst (get_contextual_results (init_assistant (Some es_corpus) (0::nat)) q_tva) =
     ([ustr ''30 jours'', ustr ''18 pour cent'', ustr ''10 pour cent''], 12)"
  by (simp add: fixture_defs ustr_def)

lemma corpus_readable: "reply_readable (take 3 corpus_hits)"
  by (simp add: corpus_hits_def reply_readable_def doc_def ustr_def)

text \<open>
  The greeting test is a substring test, so it also fires inside a word: \<^verbatim>\<open>hi\<close> occurs
  in the name of the dish.
\<close>

lemma greeting_inside_a_word:
  "recherche_fiscale lower_latin1 (init_assistant (Some es_corpus) (0::nat))
     (ustr ''quelle est la meilleure recette de thi'' @ [233] @ ustr ''boudienne'') =
     (gerer_salutation, [])"
  by (simp add: recherche_fiscale_def eval_defs)

text \<open>A letter A-Z in the needle cannot be found in a text that has none.\<close>

lemma upper_never_in_lowered:
  assumes "has_ascii_upper mot" and "no_ascii_upper s"
  shows "\<not> sublist mot s"
proof
  assume "sublist mot s"
  then have "set mot \<subseteq> set s" by (rule set_mono_sublist)
  moreover from assms(1) obtain c where "c \<in> set mot" "is_ascii_upper c"
    by (auto simp: has_ascii_upper_def list_ex_iff)
  moreover from assms(2) have "\<forall>c \<in> set s. \<not> is_ascii_upper c"
    by (simp add: no_ascii_upper_def list_all_iff)
  ultimately show False by blast
qed

lemma lower_latin1_no_upper: "no_ascii_upper (lower_latin1 s)"
  by (induction s)
     (simp_all add: no_ascii_upper_def lower_latin1_def lower_cp_def is_ascii_upper_def)

lemma acronymes_upper_keywords:
  "list_all (\<lambda>mot. List.member mots_cles_fiscaux mot \<and> has_ascii_upper mot) acronymes"
  by (simp add: acronymes_def mots_cles_fiscaux_def has_ascii_upper_def ustr_def
      is_ascii_upper_def)

lemma q_is_facts:
  "py_in (ustr ''IS'') q_is"
  "\<not> contient_salutation (lower_latin1 q_is)"
  "list_all (\<lambda>mot. has_ascii_upper mot \<or> \<not> py_in mot (lower_latin1 q_is)) mots_cles_fiscaux"
  by (simp_all add: eval_defs q_is_def has_ascii_upper_def)

section \<open>The claims about \<^verbatim>\<open>recherche_fiscale\<close> and the retrieval\<close>

text \<open>
  C1. A query whose lowercased text contains one of the greeting tokens as a substring
  gets the fixed greeting, whatever else it contains (nothing is assumed about the
  domain keywords), and the trace is empty: \<^verbatim>\<open>_get_contextual_results\<close> is not entered
  and no search is sent.
\<close>

theorem greeting_precedence:
  assumes "salut \<in> set salutations" and "sublist salut (lower query)"
  shows "recherche_fiscale lower self query = (gerer_salutation, [])"
proof -
  have "contient_salutation (lower query)"
    using assms contient_salutation_iff by blast
  then show ?thesis by (simp add: recherche_fiscale_def)
qed

text \<open>The example greets and names a tax in the same sentence.\<close>

theorem greeting_precedence_witness:
  "ustr ''bonjour'' \<in> set salutations
   \<and> sublist (ustr ''bonjour'') (lower_latin1 (ustr ''Bonjour, quelle taxe payer ?''))
   \<and> contient_mot_cle (lower_latin1 (ustr ''Bonjour, quelle taxe payer ?''))
   \<and> recherche_fiscale lower_latin1 (init_assistant (Some es_corpus) (0::nat))
        (ustr ''Bonjour, quelle taxe payer ?'') = (gerer_salutation, [])"
proof -
  have m: "ustr ''bonjour'' \<in> set salutations"
    by (simp add: salutations_def)
  have s: "sublist (ustr ''bonjour'') (lower_latin1 (ustr ''Bonjour, quelle taxe payer ?''))"
    by (simp add: py_in_sublist [symmetric] eval_defs)
  have k: "contient_mot_cle (lower_latin1 (ustr ''Bonjour, quelle taxe payer ?''))"
    by (simp add: eval_defs)
  show ?thesis
    using m s k greeting_precedence [where lower = lower_latin1
        and query = "ustr ''Bonjour, quelle taxe payer ?''" and salut = "ustr ''bonjour''"
        and self = "init_assistant (Some es_corpus) (0::nat)"]
    by simp
qed

text \<open>
  C2. For a query that is in the domain (no greeting token, some keyword) and whose
  retrieval result is a non-empty list, the reply is exactly the first element of that
  list, and that element is the \<^verbatim>\<open>reponse\<close> field of the first hit of the search: one
  answer, the top-ranked one, not a join of several and not a later one.
\<close>

theorem top_candidate_only:
  assumes "\<not> contient_salutation (lower query)" and "contient_mot_cle (lower query)"
    and "fst (get_contextual_results self query) = (responses, best)"
    and "responses \<noteq> []"
  shows "fst (recherche_fiscale lower self query) = responses ! 0
         \<and> (\<exists>first rest. es_search self (search_body query) = Inr (first # rest)
               \<and> h_source first (ustr ''reponse'') =
                   Some (fst (recherche_fiscale lower self query)))"
proof -
  from assms(3,4) obtain r0 others where r: "responses = r0 # others"
    by (cases responses) auto
  have reply: "fst (recherche_fiscale lower self query) = r0"
    using assms(1,2,3) r by (simp add: recherche_fiscale_in_domain)
  from get_contextual_results_nonempty [OF assms(3,4)] obtain first rest where
    h: "es_search self (search_body query) = Inr (first # rest)"
       "map (\<lambda>hit. h_source hit (ustr ''reponse'')) (first # rest) = map Some responses"
    by blast
  from h(2) r have "h_source first (ustr ''reponse'') = Some r0" by simp
  with h(1) reply r show ?thesis by auto
qed

theorem top_candidate_only_witness:
  "\<not> contient_salutation (lower_latin1 q_tva) \<and> contient_mot_cle (lower_latin1 q_tva)
   \<and> fst (get_contextual_results (init_assistant (Some es_corpus) (0::nat)) q_tva) =
        ([ustr ''30 jours'', ustr ''18 pour cent'', ustr ''10 pour cent''], 12)
   \<and> fst (recherche_fiscale lower_latin1 (init_assistant (Some es_corpus) (0::nat)) q_tva) =
        ustr ''30 jours''"
  using q_tva_in_domain corpus_retrieval
    top_candidate_only [where lower = lower_latin1 and query = q_tva
      and self = "init_assistant (Some es_corpus) (0::nat)"
      and responses = "[ustr ''30 jours'', ustr ''18 pour cent'', ustr ''10 pour cent'']"
      and best = 12]
  by simp

text \<open>
  C3. When the search raises (or there is no client at all), \<^verbatim>\<open>_get_contextual_results\<close>
  returns the empty list with score 0; an in-domain query then gets the fixed not-found
  message; and against an assistant whose search succeeds with no hit, the retrieval
  result and the reply are the same for the same query, so the reply does not tell the
  two causes apart.
\<close>

theorem search_failure_not_found:
  assumes "es_search self (search_body query) = Inl e"
  shows "fst (get_contextual_results self query) = ([], 0)
         \<and> (\<not> contient_salutation (lower query) \<and> contient_mot_cle (lower query)
              \<longrightarrow> fst (recherche_fiscale lower self query) = msg_introuvable)
         \<and> (es_search other (search_body query) = Inr []
              \<longrightarrow> fst (get_contextual_results other query) =
                    fst (get_contextual_results self query)
                \<and> fst (recherche_fiscale lower other query) =
                    fst (recherche_fiscale lower self query))"
proof -
  have f: "fst (get_contextual_results self query) = ([], 0)"
    using assms by (rule get_contextual_results_failure)
  have n: "fst (get_contextual_results other query) = ([], 0)"
    if "es_search other (search_body query) = Inr []"
    using that by (rule get_contextual_results_no_hits)
  have same: "fst (recherche_fiscale lower other query) = fst (recherche_fiscale lower self query)"
    if "es_search other (search_body query) = Inr []"
    using f n [OF that]
    by (cases "get_contextual_results self query"; cases "get_contextual_results other query")
       (simp add: recherche_fiscale_def Let_def)
  show ?thesis using f n same by (simp add: recherche_fiscale_in_domain)
qed

theorem search_failure_not_found_witness:
  "es_search (init_assistant (Some es_down) (0::nat)) (search_body q_tva) =
     Inl (PyException (ustr ''ConnectionError''))
   \<and> es_search (init_assistant (Some es_no_match) (0::nat)) (search_body q_tva) = Inr []
   \<and> fst (get_contextual_results (init_assistant (Some es_down) (0::nat)) q_tva) = ([], 0)
   \<and> fst (recherche_fiscale lower_latin1 (init_assistant (Some es_down) (0::nat)) q_tva) =
        msg_introuvable
   \<and> fst (recherche_fiscale lower_latin1 (init_assistant (Some es_no_match) (0::nat)) q_tva) =
        msg_introuvable"
proof -
  have d: "es_search (init_assistant (Some es_down) (0::nat)) (search_body q_tva) =
     Inl (PyException (ustr ''ConnectionError''))"
    by (simp add: es_search_def init_assistant_def es_down_def)
  have n: "es_search (init_assistant (Some es_no_match) (0::nat)) (search_body q_tva) = Inr []"
    by (simp add: es_search_def init_assistant_def es_no_match_def)
  show ?thesis
    using d n q_tva_in_domain
      search_failure_not_found [OF d, where lower = lower_latin1
        and other = "init_assistant (Some es_no_match) (0::nat)"]
    by simp
qed

text \<open>
  C5. A query whose lowercased text contains no greeting token and no keyword of the
  list gets the fixed refusal, and the trace is empty: the retrieval is not entered.
\<close>

theorem out_of_domain_refused:
  assumes "\<forall>salut \<in> set salutations. \<not> sublist salut (lower query)"
    and "\<forall>mot \<in> set mots_cles_fiscaux. \<not> sublist mot (lower query)"
  shows "recherche_fiscale lower self query = (msg_hors_domaine, [])"
  using assms by (simp add: recherche_fiscale_def contient_salutation_iff contient_mot_cle_iff)

theorem out_of_domain_refused_witness:
  "\<not> contient_salutation (lower_latin1 (ustr ''Quelle est la recette du mafe ?''))
   \<and> \<not> contient_mot_cle (lower_latin1 (ustr ''Quelle est la recette du mafe ?''))
   \<and> recherche_fiscale lower_latin1 (init_assistant (Some es_corpus) (0::nat))
        (ustr ''Quelle est la recette du mafe ?'') = (msg_hors_domaine, [])"
proof -
  have s: "\<not> contient_salutation (lower_latin1 (ustr ''Quelle est la recette du mafe ?''))"
    by (simp add: eval_defs)
  have k: "\<not> contient_mot_cle (lower_latin1 (ustr ''Quelle est la recette du mafe ?''))"
    by (simp add: eval_defs)
  show ?thesis
    using s k out_of_domain_refused [where lower = lower_latin1
        and query = "ustr ''Quelle est la recette du mafe ?''"
        and self = "init_assistant (Some es_corpus) (0::nat)"]
    by (simp add: contient_salutation_iff contient_mot_cle_iff)
qed

text \<open>
  C7, as stated: at most 3 candidates, by non-increasing score, and a reported score
  that is the first hit's unless the hit list is empty. The code reads the reply as it
  comes. A reply of one hit, with score 5, whose document has no \<^verbatim>\<open>question\<close> ends in
  the \<^verbatim>\<open>except\<close> branch: no candidate and score 0, the hit list not being empty. And a
  service that replies with four hits, worst first, gets four answers through, in that
  order.
\<close>

theorem retrieval_bound_counterexample:
  "es_search (init_assistant (Some es_incomplete) (0::nat)) (search_body q_tva) =
     Inr [\<lparr>h_score = 5, h_source = [ustr ''reponse'' \<mapsto> ustr ''30 jours'']\<rparr>]
   \<and> fst (get_contextual_results (init_assistant (Some es_incomplete) (0::nat)) q_tva) = ([], 0)
   \<and> (0::real) \<noteq> 5
   \<and> fst (get_contextual_results (init_assistant (Some es_unruly) (0::nat)) q_tva) =
        ([ustr ''sur demande'', ustr ''10 pour cent'', ustr ''18 pour cent'', ustr ''30 jours''], 1)
   \<and> map h_score (rev corpus_hits) = [1, 3, 7, 12]
   \<and> \<not> length [ustr ''sur demande'', ustr ''10 pour cent'', ustr ''18 pour cent'',
                 ustr ''30 jours''] \<le> 3"
  by (simp add: get_contextual_results_def es_search_def init_assistant_def es_incomplete_def
      es_unruly_def corpus_hits_def doc_def ustr_def search_body_def)


text \<open>
  C7, amended. The retrieval asks for 3 hits and returns what the reply holds, without
  truncating or sorting it. It returns nothing, with score 0, when the search fails,
  when the hit list is empty and when the reply cannot be read to the end (a document
  without \<^verbatim>\<open>reponse\<close>, or without \<^verbatim>\<open>question\<close> among the first three). Otherwise it returns
  the answers of all the hits, as many as there are and in their order, with the first
  hit's score. So when the service keeps to the size asked for and replies by
  non-increasing score, there are at most 3 candidates, they come from hits in
  non-increasing score order, and the reported score is the first hit's.
\<close>

theorem retrieval_passes_reply_on:
  assumes res: "fst (get_contextual_results self query) = (responses, best_score)"
  shows "rq_size (search_body query) = 3
         \<and> (responses = [] \<longrightarrow> best_score = 0)
         \<and> ((\<exists>e. es_search self (search_body query) = Inl e)
              \<or> es_search self (search_body query) = Inr [] \<longrightarrow> responses = [])
         \<and> (\<forall>first rest. es_search self (search_body query) = Inr (first # rest) \<longrightarrow>
               (if reply_readable (first # rest)
                then map Some responses =
                       map (\<lambda>hit. h_source hit (ustr ''reponse'')) (first # rest)
                     \<and> length responses = length (first # rest)
                     \<and> best_score = h_score first
                else responses = []))
         \<and> ((\<forall>hits. es_search self (search_body query) = Inr hits \<longrightarrow>
                 length hits \<le> rq_size (search_body query)
                 \<and> sorted_wrt (\<ge>) (map h_score hits))
              \<longrightarrow> length responses \<le> 3
                  \<and> (responses \<noteq> [] \<longrightarrow>
                        (\<exists>first rest. es_search self (search_body query) = Inr (first # rest)
                           \<and> map Some responses =
                               map (\<lambda>hit. h_source hit (ustr ''reponse'')) (first # rest)
                           \<and> sorted_wrt (\<ge>) (map h_score (first # rest))
                           \<and> best_score = h_score first)))"
proof -
  have size: "rq_size (search_body query) = 3"
    by (simp add: search_body_def)
  have empty: "best_score = 0" if "responses = []"
    using res that by (rule get_contextual_results_empty)
  have none: "responses = []"
    if "(\<exists>e. es_search self (search_body query) = Inl e)
        \<or> es_search self (search_body query) = Inr []"
    using that res get_contextual_results_failure [of self query]
      get_contextual_results_no_hits [of self query]
    by auto
  have hits: "if reply_readable (first # rest)
      then map Some responses = map (\<lambda>hit. h_source hit (ustr ''reponse'')) (first # rest)
        \<and> length responses = length (first # rest) \<and> best_score = h_score first
      else responses = []"
    if e: "es_search self (search_body query) = Inr (first # rest)" for first rest
  proof (cases "reply_readable (first # rest)")
    case True
    from get_contextual_results_readable [OF e True] res
    have r: "responses = map (\<lambda>hit. the (h_source hit (ustr ''reponse''))) (first # rest)"
      and b: "best_score = h_score first"
      by simp_all
    from r have ne: "responses \<noteq> []" by simp
    from get_contextual_results_nonempty [OF res ne] e
    have "map (\<lambda>hit. h_source hit (ustr ''reponse'')) (first # rest) = map Some responses"
      by auto
    moreover from r have "length responses = length (first # rest)" by simp
    ultimately show ?thesis using True b by simp
  next
    case False
    from get_contextual_results_unreadable [OF e False] res show ?thesis
      using False by simp
  qed
  have contract: "length responses \<le> 3
      \<and> (responses \<noteq> [] \<longrightarrow>
            (\<exists>first rest. es_search self (search_body query) = Inr (first # rest)
               \<and> map Some responses =
                   map (\<lambda>hit. h_source hit (ustr ''reponse'')) (first # rest)
               \<and> sorted_wrt (\<ge>) (map h_score (first # rest))
               \<and> best_score = h_score first))"
    if c: "\<forall>hits. es_search self (search_body query) = Inr hits \<longrightarrow>
                 length hits \<le> rq_size (search_body query)
                 \<and> sorted_wrt (\<ge>) (map h_score hits)"
  proof (cases "responses = []")
    case True
    then show ?thesis by simp
  next
    case False
    from get_contextual_results_nonempty [OF res False] obtain first rest where
      e: "es_search self (search_body query) = Inr (first # rest)"
      and m: "map (\<lambda>hit. h_source hit (ustr ''reponse'')) (first # rest) = map Some responses"
      and b: "best_score = h_score first"
      by blast
    from m have "length responses = length (first # rest)"
      by (metis length_map)
    moreover from c e have "length (first # rest) \<le> 3"
      and s: "sorted_wrt (\<ge>) (map h_score (first # rest))"
      using size by auto
    ultimately have "length responses \<le> 3" by simp
    with e m b s show ?thesis by auto
  qed
  from size empty none hits contract show ?thesis by blast
qed

text \<open>The corpus holds four documents; three come back, best first.\<close>

theorem retrieval_passes_reply_on_witness:
  "es_search (init_assistant (Some es_corpus) (0::nat)) (search_body q_tva) =
     Inr (take 3 corpus_hits)
   \<and> length (take 3 corpus_hits) \<le> rq_size (search_body q_tva)
   \<and> map h_score (take 3 corpus_hits) = [12, 7, 3]
   \<and> sorted_wrt (\<ge>) (map h_score (take 3 corpus_hits))
   \<and> reply_readable (take 3 corpus_hits)
   \<and> fst (get_contextual_results (init_assistant (Some es_corpus) (0::nat)) q_tva) =
        ([ustr ''30 jours'', ustr ''18 pour cent'', ustr ''10 pour cent''], 12)
   \<and> length [ustr ''30 jours'', ustr ''18 pour cent'', ustr ''10 pour cent''] \<le> 3"
proof -
  have e: "es_search (init_assistant (Some es_corpus) (0::nat)) (search_body q_tva) =
     Inr (take 3 corpus_hits)"
    by (simp add: es_search_def init_assistant_def es_corpus_def search_body_def)
  have s: "map h_score (take 3 corpus_hits) = [12, 7, 3]"
    by (simp add: corpus_hits_def)
  have l: "length (take 3 corpus_hits) \<le> rq_size (search_body q_tva)"
    by (simp add: search_body_def corpus_hits_def)
  show ?thesis
    using e s l corpus_readable corpus_retrieval
      retrieval_passes_reply_on [OF corpus_retrieval]
    by simp
qed

text \<open>
  C9. The query is lowercased and the keywords are compared as written, so, \<^verbatim>\<open>lower\<close>
  leaving no letter A-Z, a keyword with a capital letter occurs in no lowercased
  query; IR, IS, NINEA, CGU, PME, PCF and SIGTAS are such keywords. Hence a query with
  no greeting token and none of the keywords written without capitals is refused as
  out of the domain, whatever acronyms it contains, and the retrieval is not entered.
\<close>

theorem uppercase_keywords_never_match:
  assumes "no_ascii_upper (lower query)"
  shows "(\<forall>mot \<in> set mots_cles_fiscaux. has_ascii_upper mot \<longrightarrow> \<not> sublist mot (lower query))
         \<and> (\<forall>mot \<in> set acronymes.
               mot \<in> set mots_cles_fiscaux \<and> \<not> sublist mot (lower query))
         \<and> ((\<forall>salut \<in> set salutations. \<not> sublist salut (lower query))
              \<and> (\<forall>mot \<in> set mots_cles_fiscaux.
                    \<not> has_ascii_upper mot \<longrightarrow> \<not> sublist mot (lower query))
              \<longrightarrow> recherche_fiscale lower self query = (msg_hors_domaine, []))"
proof -
  have u: "\<not> sublist mot (lower query)" if "has_ascii_upper mot" for mot
    using that assms by (rule upper_never_in_lowered)
  have a: "mot \<in> set mots_cles_fiscaux \<and> has_ascii_upper mot"
    if "mot \<in> set acronymes" for mot
    using acronymes_upper_keywords that by (simp add: list_all_iff)
  have r: "recherche_fiscale lower self query = (msg_hors_domaine, [])"
    if "\<forall>salut \<in> set salutations. \<not> sublist salut (lower query)"
      and "\<forall>mot \<in> set mots_cles_fiscaux.
             \<not> has_ascii_upper mot \<longrightarrow> \<not> sublist mot (lower query)"
  proof -
    from that(2) u have "\<forall>mot \<in> set mots_cles_fiscaux. \<not> sublist mot (lower query)"
      by blast
    with that(1) show ?thesis
      by (simp add: recherche_fiscale_def contient_salutation_iff contient_mot_cle_iff)
  qed
  from u a r show ?thesis by blast
qed

text \<open>A question about the corporate tax that names it by its acronym only.\<close>

theorem uppercase_keywords_never_match_witness:
  "no_ascii_upper (lower_latin1 q_is)
   \<and> sublist (ustr ''IS'') q_is
   \<and> \<not> sublist (ustr ''IS'') (lower_latin1 q_is)
   \<and> \<not> contient_salutation (lower_latin1 q_is)
   \<and> list_all (\<lambda>mot. has_ascii_upper mot \<or> \<not> py_in mot (lower_latin1 q_is)) mots_cles_fiscaux
   \<and> recherche_fiscale lower_latin1 (init_assistant (Some es_corpus) (0::nat)) q_is =
        (msg_hors_domaine, [])"
proof -
  have is_kw: "ustr ''IS'' \<in> set acronymes" by (simp add: acronymes_def)
  have ante: "(\<forall>salut \<in> set salutations. \<not> sublist salut (lower_latin1 q_is))
     \<and> (\<forall>mot \<in> set mots_cles_fiscaux.
           \<not> has_ascii_upper mot \<longrightarrow> \<not> sublist mot (lower_latin1 q_is))"
    using q_is_facts(2,3) by (auto simp: contient_salutation_iff list_all_iff py_in_sublist)
  show ?thesis
    using lower_latin1_no_upper [of q_is] q_is_facts is_kw ante
      uppercase_keywords_never_match [where lower = lower_latin1 and query = q_is
        and self = "init_assistant (Some es_corpus) (0::nat)", OF lower_latin1_no_upper]
    by (simp add: py_in_sublist)
qed

section \<open>The claims about the endpoint\<close>

lemmas api_eval = get_fiscalite_def cle_refusee_def py_strip_def py_isspace_def agent_once_def
  fiscal_tool_def init_assistant_def API_KEY_def

text \<open>\<^verbatim>\<open>not question.strip()\<close> holds exactly of the texts made of whitespace only.\<close>

lemma py_strip_empty_iff: "py_strip s = [] \<longleftrightarrow> list_all py_isspace s"
proof (cases "dropWhile py_isspace s = []")
  case True
  then have "\<forall>x \<in> set s. py_isspace x"
    by (simp add: dropWhile_eq_Nil_conv)
  moreover have "py_strip s = []"
    unfolding py_strip_def True by simp
  ultimately show ?thesis
    by (simp add: list_all_iff)
next
  case False
  then have "\<not> py_isspace (hd (dropWhile py_isspace s))"
    by (rule hd_dropWhile)
  moreover from False have "hd (dropWhile py_isspace s) \<in> set (dropWhile py_isspace s)"
    by (rule hd_in_set)
  ultimately have "\<not> (\<forall>x \<in> set (dropWhile py_isspace s). py_isspace x)"
    by blast
  moreover from False have "\<not> (\<forall>x \<in> set s. py_isspace x)"
    by (simp add: dropWhile_eq_Nil_conv)
  ultimately show ?thesis
    by (auto simp add: py_strip_def dropWhile_eq_Nil_conv list_all_iff)
qed

lemma blank_or_short_few_nonspace:
  assumes "list_all py_isspace question \<or> length question < 3"
  shows "length (filter (\<lambda>c. \<not> py_isspace c) question) < 3"
proof -
  from assms show ?thesis
  proof
    assume "list_all py_isspace question"
    then have "filter (\<lambda>c. \<not> py_isspace c) question = []"
      by (simp add: list_all_iff filter_empty_conv)
    then show ?thesis by simp
  next
    assume "length question < 3"
    moreover have "length (filter (\<lambda>c. \<not> py_isspace c) question) \<le> length question"
      by (rule length_filter_le)
    ultimately show ?thesis by (rule le_less_trans [rotated])
  qed
qed

lemma cle_refusee_iff:
  "cle_refusee k \<longleftrightarrow> (\<exists>key. k = Some key \<and> key \<noteq> [] \<and> key \<noteq> API_KEY)"
  by (cases k) (simp_all add: cle_refusee_def)

lemma get_fiscalite_keeps_cache:
  "response_cache (snd (snd (get_fiscalite lower agent assistant question x_api_key))) =
     response_cache assistant"
  by (simp add: get_fiscalite_def split: prod.splits sum.splits)

text \<open>
  C4, as stated: every question with fewer than 3 non-whitespace characters gets the
  fixed message without the agent being called. The code tests something else: that
  the question is blank, or shorter than 3 characters with the whitespace counted.
  \<^verbatim>\<open>a b\<close> has two non-whitespace characters and three characters; it is passed to the
  agent, whose answer is returned.
\<close>

theorem few_nonspace_characters_counterexample:
  "length (filter (\<lambda>c. \<not> py_isspace c) (ustr ''a b'')) < 3
   \<and> get_fiscalite lower_latin1 agent_once (init_assistant (Some es_corpus) 0)
        (ustr ''a b'') None =
        (Message msg_hors_domaine, [AgentCall (ustr ''a b'')],
         (init_assistant (Some es_corpus) 0)\<lparr>agent_state := 1\<rparr>)
   \<and> Message msg_hors_domaine \<noteq> Message msg_question_imprecise"
  by (simp add: api_eval ustr_def recherche_fiscale_def eval_defs msg_hors_domaine_def
      msg_question_imprecise_def)

text \<open>
  C4, amended. A question that is empty, made of whitespace only, or shorter than 3
  characters (whitespace included) has fewer than 3 non-whitespace characters and never
  reaches the agent (no event, the assistant unchanged). It gets the fixed message
  whenever the key check lets the request through (no key, an empty key or the
  secret), and the 403 when the key is refused.
\<close>

theorem blank_or_short_question_rejected:
  assumes "list_all py_isspace question \<or> length question < 3"
  shows "length (filter (\<lambda>c. \<not> py_isspace c) question) < 3
         \<and> (x_api_key = None \<or> x_api_key = Some [] \<or> x_api_key = Some API_KEY
              \<longrightarrow> get_fiscalite lower agent assistant question x_api_key =
                    (Message msg_question_imprecise, [], assistant))
         \<and> ((\<exists>key. x_api_key = Some key \<and> key \<noteq> [] \<and> key \<noteq> API_KEY)
              \<longrightarrow> get_fiscalite lower agent assistant question x_api_key =
                    (HTTPException 403 detail_403, [], assistant))
         \<and> snd (get_fiscalite lower agent assistant question x_api_key) = ([], assistant)"
proof -
  have v: "py_strip question = [] \<or> length question < 3"
    using assms by (simp add: py_strip_empty_iff)
  have ok: "get_fiscalite lower agent assistant question x_api_key =
      (Message msg_question_imprecise, [], assistant)"
    if "\<not> cle_refusee x_api_key"
    using that v by (simp add: get_fiscalite_def)
  have refused: "get_fiscalite lower agent assistant question x_api_key =
      (HTTPException 403 detail_403, [], assistant)"
    if "cle_refusee x_api_key"
    using that by (simp add: get_fiscalite_def)
  have "snd (get_fiscalite lower agent assistant question x_api_key) = ([], assistant)"
    using v by (simp add: get_fiscalite_def)
  moreover have "\<not> cle_refusee x_api_key"
    if "x_api_key = None \<or> x_api_key = Some [] \<or> x_api_key = Some API_KEY"
    using that by (auto simp: cle_refusee_def)
  ultimately show ?thesis
    using ok refused blank_or_short_few_nonspace [OF assms]
    unfolding cle_refusee_iff [symmetric] by blast
qed

text \<open>A two-letter question, without a key and with a wrong one.\<close>

theorem blank_or_short_question_rejected_witness:
  "length (ustr ''ab'') < 3
   \<and> get_fiscalite lower_latin1 agent_once (init_assistant (Some es_corpus) 0)
        (ustr ''ab'') None =
        (Message msg_question_imprecise, [], init_assistant (Some es_corpus) 0)
   \<and> ustr ''devine'' \<noteq> [] \<and> ustr ''devine'' \<noteq> API_KEY
   \<and> get_fiscalite lower_latin1 agent_once (init_assistant (Some es_corpus) 0)
        (ustr ''ab'') (Some (ustr ''devine'')) =
        (HTTPException 403 detail_403, [], init_assistant (Some es_corpus) 0)"
proof -
  have k: "ustr ''devine'' \<noteq> [] \<and> ustr ''devine'' \<noteq> API_KEY"
    by (simp add: ustr_def API_KEY_def)
  show ?thesis
    using k
      blank_or_short_question_rejected [where question = "ustr ''ab''"
        and x_api_key = None and lower = lower_latin1 and agent = agent_once
        and assistant = "init_assistant (Some es_corpus) 0"]
      blank_or_short_question_rejected [where question = "ustr ''ab''"
        and x_api_key = "Some (ustr ''devine'')" and lower = lower_latin1 and agent = agent_once
        and assistant = "init_assistant (Some es_corpus) 0"]
    by (simp add: ustr_def)
qed

text \<open>
  C10, as stated: the 403 is raised if and only if a key is supplied and differs from
  the secret. A request whose \<^verbatim>\<open>x-api-key\<close> header is present and empty supplies a key
  that differs from the secret, and is answered like a request without the header.
\<close>

theorem empty_key_counterexample:
  "Some ([]::pystr) \<noteq> None \<and> [] \<noteq> API_KEY
   \<and> fst (get_fiscalite lower_latin1 agent_once (init_assistant (Some es_corpus) 0) q_tva
        (Some [])) = Message (ustr ''30 jours'')"
  by (simp add: api_eval ustr_def recherche_fiscale_def eval_defs q_tva_def fixture_defs)

text \<open>
  C10, amended. The 403 is raised if and only if a non-empty key is supplied and
  differs from the secret; it is then raised whatever the question is, with no event
  and the assistant unchanged, so before the question is validated and before the
  agent is called. Without the header there is no check: the request is handled as
  with the secret, and never ends in the 403.
\<close>

theorem key_check_first:
  "(fst (get_fiscalite lower agent assistant question x_api_key) = HTTPException 403 detail_403
      \<longleftrightarrow> (\<exists>key. x_api_key = Some key \<and> key \<noteq> [] \<and> key \<noteq> API_KEY))
   \<and> ((\<exists>key. x_api_key = Some key \<and> key \<noteq> [] \<and> key \<noteq> API_KEY)
        \<longrightarrow> get_fiscalite lower agent assistant question x_api_key =
              (HTTPException 403 detail_403, [], assistant))
   \<and> get_fiscalite lower agent assistant question None =
       get_fiscalite lower agent assistant question (Some API_KEY)
   \<and> fst (get_fiscalite lower agent assistant question None) \<noteq> HTTPException 403 detail_403"
proof -
  have no: "fst (get_fiscalite lower agent assistant question k) \<noteq> HTTPException 403 detail_403"
    if "\<not> cle_refusee k" for k
    using that by (auto simp: get_fiscalite_def split: prod.splits sum.splits)
  have yes: "get_fiscalite lower agent assistant question k =
      (HTTPException 403 detail_403, [], assistant)"
    if "cle_refusee k" for k
    using that by (simp add: get_fiscalite_def)
  have same: "get_fiscalite lower agent assistant question None =
       get_fiscalite lower agent assistant question (Some API_KEY)"
    by (simp add: get_fiscalite_def cle_refusee_def)
  have n: "\<not> cle_refusee None" by (simp add: cle_refusee_def)
  show ?thesis
    using no [of x_api_key] yes [of x_api_key] no [OF n] same
    unfolding cle_refusee_iff [symmetric] by (metis fst_conv)
qed

text \<open>A wrong key with a question that would fail the validation: the 403 comes first.\<close>

theorem key_check_first_witness:
  "ustr ''devine'' \<noteq> [] \<and> ustr ''devine'' \<noteq> API_KEY
   \<and> get_fiscalite lower_latin1 agent_once (init_assistant (Some es_corpus) 0) (ustr ''ab'')
        (Some (ustr ''devine'')) =
        (HTTPException 403 detail_403, [], init_assistant (Some es_corpus) 0)
   \<and> get_fiscalite lower_latin1 agent_once (init_assistant (Some es_corpus) 0) (ustr ''ab'')
        None =
        (Message msg_question_imprecise, [], init_assistant (Some es_corpus) 0)"
proof -
  have k: "ustr ''devine'' \<noteq> [] \<and> ustr ''devine'' \<noteq> API_KEY"
    by (simp add: ustr_def API_KEY_def)
  have v: "get_fiscalite lower_latin1 agent_once (init_assistant (Some es_corpus) 0)
      (ustr ''ab'') None =
        (Message msg_question_imprecise, [], init_assistant (Some es_corpus) 0)"
    by (simp add: get_fiscalite_def cle_refusee_def ustr_def)
  show ?thesis
    using k v key_check_first [where x_api_key = "Some (ustr ''devine'')"
      and question = "ustr ''ab''" and lower = lower_latin1 and agent = agent_once
      and assistant = "init_assistant (Some es_corpus) 0"]
    by simp
qed

section \<open>The claim about the cache\<close>

lemmas run_eval = run_turn_def py_strip_def py_isspace_def agent_once_def
  fiscal_tool_def init_assistant_def vider_cache_def

lemma run_turn_cache:
  assumes "run_turn lower agent self inp = (status, events, self')"
  shows "(CacheCleared \<in> set events \<longleftrightarrow> turn_clears lower agent self inp)
         \<and> response_cache self' =
             (if turn_clears lower agent self inp then Map.empty else response_cache self)"
  using assms
  by (auto simp: run_turn_def turn_clears_def vider_cache_def Let_def
      split: console.splits if_splits prod.splits sum.splits raised.splits)

lemma run_turn_keeps_empty:
  assumes "run_turn lower agent self inp = (status, events, self')"
    and "response_cache self = Map.empty"
  shows "response_cache self' = Map.empty"
  using run_turn_cache [OF assms(1)] assms(2) by simp

text \<open>An empty cache stays empty through the whole loop: induction on the inputs.\<close>

lemma run_loop_keeps_empty:
  assumes "run_loop lower agent self inputs = (status, events, self')"
    and "response_cache self = Map.empty"
  shows "response_cache self' = Map.empty"
  using assms
proof (induction inputs arbitrary: self status events self')
  case Nil
  then show ?case by simp
next
  case (Cons inp rest)
  obtain st ev mid where t: "run_turn lower agent self inp = (st, ev, mid)"
    by (cases "run_turn lower agent self inp") auto
  have m: "response_cache mid = Map.empty"
    using run_turn_keeps_empty [OF t Cons.prems(2)] .
  show ?case
  proof (cases st)
    case Stopped
    with t Cons.prems(1) m show ?thesis by simp
  next
    case Running
    obtain st2 ev2 fin where l: "run_loop lower agent mid rest = (st2, ev2, fin)"
      by (cases "run_loop lower agent mid rest") auto
    from Cons.IH [OF l m] have "response_cache fin = Map.empty" .
    with t Running l Cons.prems(1) show ?thesis by simp
  qed
qed

text \<open>Nothing reads the cache: results, events and status are the same whatever it holds.\<close>

lemma fiscal_tool_ignores_cache:
  "fiscal_tool lower (self\<lparr>response_cache := c\<rparr>) = fiscal_tool lower self"
  by (rule ext) (simp add: fiscal_tool_def recherche_fiscale_ignores_cache)

lemma get_fiscalite_ignores_cache:
  "get_fiscalite lower agent (self\<lparr>response_cache := c\<rparr>) question x_api_key =
     (case get_fiscalite lower agent self question x_api_key of
        (result, events, self') \<Rightarrow> (result, events, self'\<lparr>response_cache := c\<rparr>))"
  by (simp add: get_fiscalite_def fiscal_tool_ignores_cache split: prod.splits sum.splits)

lemma turn_clears_ignores_cache:
  "turn_clears lower agent (self\<lparr>response_cache := c\<rparr>) inp = turn_clears lower agent self inp"
  by (simp add: turn_clears_def fiscal_tool_ignores_cache split: console.splits)

lemma run_turn_ignores_cache:
  "run_turn lower agent (self\<lparr>response_cache := c\<rparr>) inp =
     (case run_turn lower agent self inp of
        (status, events, self') \<Rightarrow>
          (status, events,
           self'\<lparr>response_cache := (if turn_clears lower agent self inp then Map.empty else c)\<rparr>))"
  by (auto simp: run_turn_def turn_clears_def vider_cache_def Let_def fiscal_tool_ignores_cache
      split: console.splits prod.splits sum.splits raised.splits)

lemma run_loop_ignores_cache:
  "\<exists>c'. run_loop lower agent (self\<lparr>response_cache := c\<rparr>) inputs =
     (case run_loop lower agent self inputs of
        (status, events, self') \<Rightarrow> (status, events, self'\<lparr>response_cache := c'\<rparr>))"
proof (induction inputs arbitrary: self c)
  case Nil
  show ?case by (rule exI [of _ c]) simp
next
  case (Cons inp rest)
  obtain st ev mid where t: "run_turn lower agent self inp = (st, ev, mid)"
    by (cases "run_turn lower agent self inp") auto
  define c1 where "c1 = (if turn_clears lower agent self inp then Map.empty else c)"
  have t': "run_turn lower agent (self\<lparr>response_cache := c\<rparr>) inp =
      (st, ev, mid\<lparr>response_cache := c1\<rparr>)"
    using t by (simp add: run_turn_ignores_cache c1_def)
  show ?case
  proof (cases st)
    case Stopped
    with t t' show ?thesis by (intro exI [of _ c1]) simp
  next
    case Running
    from Cons.IH [where self = mid and c = c1] obtain c' where
      "run_loop lower agent (mid\<lparr>response_cache := c1\<rparr>) rest =
         (case run_loop lower agent mid rest of
            (status, events, self') \<Rightarrow> (status, events, self'\<lparr>response_cache := c'\<rparr>))"
      by blast
    with t t' Running show ?thesis
      by (auto split: prod.splits)
  qed
qed

text \<open>A question always goes to the agent, in the loop and at the endpoint.\<close>

lemma run_turn_question_calls_agent:
  assumes "\<not> List.member [ustr ''exit'', ustr ''quit'', ustr ''q''] (lower (py_strip raw))"
    and "\<not> List.member [ustr ''vider cache'', ustr ''reset''] (lower (py_strip raw))"
    and "\<not> contient_salutation (lower (py_strip raw))"
  shows "\<exists>others. fst (snd (run_turn lower agent self (Line raw))) = AgentCall (py_strip raw) # others"
  using assms
  by (auto simp: run_turn_def Let_def split: prod.splits sum.splits raised.splits)

lemma get_fiscalite_question_calls_agent:
  assumes "\<not> cle_refusee x_api_key" and "py_strip question \<noteq> []" and "3 \<le> length question"
  shows "fst (snd (get_fiscalite lower agent self question x_api_key)) = [AgentCall question]"
  using assms by (auto simp: get_fiscalite_def split: prod.splits sum.splits)


lemma run_twice:
  "run_loop lower_latin1 agent_once (init_assistant (Some es_corpus) 0)
     [Line q_tva, Line q_tva] =
   (Running, [AgentCall q_tva, AgentCall q_tva],
    (init_assistant (Some es_corpus) 0)\<lparr>agent_state := 2\<rparr>)"
  by (simp add: run_eval eval_defs q_tva_def)

text \<open>
  C6, as stated: the cache shortcuts repeated work, a repeated query being answered
  from the store. Nothing in the code reads \<^verbatim>\<open>response_cache\<close> or writes to it: the same
  question asked twice goes to the agent twice, and the store holds no entry for it
  afterwards.
\<close>

theorem repeated_query_counterexample:
  "run_loop lower_latin1 agent_once (init_assistant (Some es_corpus) 0)
     [Line q_tva, Line q_tva] =
     (Running, [AgentCall q_tva, AgentCall q_tva],
      (init_assistant (Some es_corpus) 0)\<lparr>agent_state := 2\<rparr>)
   \<and> response_cache ((init_assistant (Some es_corpus) 0)\<lparr>agent_state := 2\<rparr>) q_tva = None"
  using run_twice by (simp add: init_assistant_def)

text \<open>
  C6, amended. The cache is created empty and nothing reads it: the reply of
  \<^verbatim>\<open>recherche_fiscale\<close>, the result and events of the endpoint, and the status and events
  of a turn and of the whole console loop are the same whatever the cache holds, and a
  question (not a command, not a greeting, not rejected at the endpoint) is always
  passed to the agent, so a repeated query is processed afresh. Nothing adds an entry:
  the endpoint leaves the cache as it is, and a turn of the loop either leaves it as it
  is or empties it. It empties it exactly on the turns that clear: the command
  \<^verbatim>\<open>vider cache\<close> or \<^verbatim>\<open>reset\<close>, and the recovery from an exception. From a fresh assistant
  the cache is empty after any run of the loop.
\<close>

theorem cache_only_cleared:
  "response_cache (init_assistant client m0) = Map.empty
   \<and> recherche_fiscale lower (self\<lparr>response_cache := c\<rparr>) query =
       recherche_fiscale lower self query
   \<and> get_fiscalite lower agent (self\<lparr>response_cache := c\<rparr>) question x_api_key =
       (case get_fiscalite lower agent self question x_api_key of
          (result, events, self') \<Rightarrow> (result, events, self'\<lparr>response_cache := c\<rparr>))
   \<and> run_turn lower agent (self\<lparr>response_cache := c\<rparr>) inp =
       (case run_turn lower agent self inp of
          (status, events, self') \<Rightarrow>
            (status, events,
             self'\<lparr>response_cache :=
                    (if turn_clears lower agent self inp then Map.empty else c)\<rparr>))
   \<and> (\<exists>c'. run_loop lower agent (self\<lparr>response_cache := c\<rparr>) inputs =
          (case run_loop lower agent self inputs of
             (status, events, self') \<Rightarrow> (status, events, self'\<lparr>response_cache := c'\<rparr>)))
   \<and> (\<not> List.member [ustr ''exit'', ustr ''quit'', ustr ''q''] (lower (py_strip raw))
        \<and> \<not> List.member [ustr ''vider cache'', ustr ''reset''] (lower (py_strip raw))
        \<and> \<not> contient_salutation (lower (py_strip raw))
        \<longrightarrow> (\<exists>others. fst (snd (run_turn lower agent self (Line raw))) =
                          AgentCall (py_strip raw) # others))
   \<and> (\<not> cle_refusee x_api_key \<and> py_strip question \<noteq> [] \<and> 3 \<le> length question
        \<longrightarrow> fst (snd (get_fiscalite lower agent self question x_api_key)) =
              [AgentCall question])
   \<and> (run_turn lower agent self inp = (status, events, self') \<longrightarrow>
        (CacheCleared \<in> set events \<longleftrightarrow> turn_clears lower agent self inp)
        \<and> response_cache self' =
             (if turn_clears lower agent self inp then Map.empty else response_cache self))
   \<and> (run_loop lower agent (init_assistant client m0) inputs = (status, events, self') \<longrightarrow>
        response_cache self' = Map.empty)"
proof -
  have a: "response_cache (init_assistant client m0) = Map.empty"
    by (simp add: init_assistant_def)
  have t: "(CacheCleared \<in> set events \<longleftrightarrow> turn_clears lower agent self inp)
        \<and> response_cache self' =
             (if turn_clears lower agent self inp then Map.empty else response_cache self)"
    if "run_turn lower agent self inp = (status, events, self')"
    using that by (rule run_turn_cache)
  have l: "response_cache self' = Map.empty"
    if "run_loop lower agent (init_assistant client m0) inputs = (status, events, self')"
    using that a by (rule run_loop_keeps_empty)
  have q: "\<exists>others. fst (snd (run_turn lower agent self (Line raw))) =
                          AgentCall (py_strip raw) # others"
    if "\<not> List.member [ustr ''exit'', ustr ''quit'', ustr ''q''] (lower (py_strip raw))
        \<and> \<not> List.member [ustr ''vider cache'', ustr ''reset''] (lower (py_strip raw))
        \<and> \<not> contient_salutation (lower (py_strip raw))"
    using that run_turn_question_calls_agent by blast
  have g: "fst (snd (get_fiscalite lower agent self question x_api_key)) =
              [AgentCall question]"
    if "\<not> cle_refusee x_api_key \<and> py_strip question \<noteq> [] \<and> 3 \<le> length question"
    using that get_fiscalite_question_calls_agent by blast
  show ?thesis
    using a t l q g
      recherche_fiscale_ignores_cache [where lower = lower and self = self and c = c
        and query = query]
      get_fiscalite_ignores_cache [where lower = lower and agent = agent and self = self
        and c = c and question = question and x_api_key = x_api_key]
      run_turn_ignores_cache [where lower = lower and agent = agent and self = self
        and c = c and inp = inp]
      run_loop_ignores_cache [where lower = lower and agent = agent and self = self
        and c = c and inputs = inputs]
    by blast
qed

text \<open>
  The cache holds an answer to the question, and the question still goes to the agent;
  the command, typed with capitals and spaces around it, empties the cache.
\<close>

lemma asked_again:
  "run_turn lower_latin1 agent_once
      ((init_assistant (Some es_corpus) 1)\<lparr>response_cache := [q_tva \<mapsto> ustr ''30 jours'']\<rparr>)
      (Line q_tva) =
     (Running, [AgentCall q_tva],
      (init_assistant (Some es_corpus) 2)\<lparr>response_cache := [q_tva \<mapsto> ustr ''30 jours'']\<rparr>)"
  by (simp add: run_eval eval_defs q_tva_def Let_def numeral_2_eq_2)

lemma q_tva_is_a_question:
  "\<not> List.member [ustr ''exit'', ustr ''quit'', ustr ''q''] (lower_latin1 (py_strip q_tva))"
  "\<not> List.member [ustr ''vider cache'', ustr ''reset''] (lower_latin1 (py_strip q_tva))"
  "\<not> contient_salutation (lower_latin1 (py_strip q_tva))"
  "py_strip q_tva = q_tva"
  by (simp_all add: eval_defs q_tva_def py_strip_def py_isspace_def)

theorem cache_only_cleared_witness:
  "run_turn lower_latin1 agent_once
      ((init_assistant (Some es_corpus) 1)\<lparr>response_cache := [q_tva \<mapsto> ustr ''30 jours'']\<rparr>)
      (Line (ustr ''  Reset  '')) =
     (Running, [CacheCleared], init_assistant (Some es_corpus) 1)
   \<and> turn_clears lower_latin1 agent_once
        ((init_assistant (Some es_corpus) 1)\<lparr>response_cache := [q_tva \<mapsto> ustr ''30 jours'']\<rparr>)
        (Line (ustr ''  Reset  ''))
   \<and> \<not> List.member [ustr ''exit'', ustr ''quit'', ustr ''q''] (lower_latin1 (py_strip q_tva))
   \<and> \<not> List.member [ustr ''vider cache'', ustr ''reset''] (lower_latin1 (py_strip q_tva))
   \<and> \<not> contient_salutation (lower_latin1 (py_strip q_tva))
   \<and> run_turn lower_latin1 agent_once
        ((init_assistant (Some es_corpus) 1)\<lparr>response_cache := [q_tva \<mapsto> ustr ''30 jours'']\<rparr>)
        (Line q_tva) =
       (Running, [AgentCall q_tva],
        (init_assistant (Some es_corpus) 2)\<lparr>response_cache := [q_tva \<mapsto> ustr ''30 jours'']\<rparr>)
   \<and> run_loop lower_latin1 agent_once (init_assistant (Some es_corpus) 0)
        [Line q_tva, Line q_tva] =
       (Running, [AgentCall q_tva, AgentCall q_tva],
        (init_assistant (Some es_corpus) 0)\<lparr>agent_state := 2\<rparr>)
   \<and> response_cache ((init_assistant (Some es_corpus) 0)\<lparr>agent_state := 2\<rparr>) = Map.empty"
proof -
  have t: "run_turn lower_latin1 agent_once
      ((init_assistant (Some es_corpus) 1)\<lparr>response_cache := [q_tva \<mapsto> ustr ''30 jours'']\<rparr>)
      (Line (ustr ''  Reset  '')) =
     (Running, [CacheCleared], init_assistant (Some es_corpus) 1)"
    by (simp add: run_eval eval_defs)
  show ?thesis
    using t run_twice asked_again q_tva_is_a_question
      cache_only_cleared [where lower = lower_latin1 and agent = agent_once
        and self = "(init_assistant (Some es_corpus) 1)\<lparr>response_cache :=
                      [q_tva \<mapsto> ustr ''30 jours'']\<rparr>"
        and inp = "Line (ustr ''  Reset  '')" and status = Running
        and events = "[CacheCleared]"
        and self' = "init_assistant (Some es_corpus) 1" and client = "Some es_corpus"
        and ?m0.0 = 0 and raw = q_tva]
    by (simp add: init_assistant_def)
qed


end
